theory Spec2Isabelle
  imports Main "HOL-Library.Word"
begin

section \<open>The standalone proxy: forwarding client of the refiner\<close>

text \<open>
  A shallow embedding of \<^verbatim>\<open>standaloneproxy/proxy.go\<close>. Go functions that return
  \<^verbatim>\<open>(*T, error)\<close> are modelled as functions into a pair of options: the pointer
  (\<open>None\<close> is \<^verbatim>\<open>nil\<close>) and the error (\<open>None\<close> is \<^verbatim>\<open>nil\<close>), so that a return of both
  or of neither stays expressible. A panic is a value of type \<open>outcome\<close>.
  The packages the file imports (jsonparser, encoding/json, the relayer's base types)
  are parameters of the model, collected in the record \<open>deps\<close>; the operating system's
  answers to the socket calls are parameters too.
\<close>

subsection \<open>Values and errors\<close>

type_synonym bytes = string
type_synonym H256 = "256 word"
type_synonym BN64 = "64 word"
type_synonym Uint256 = "256 word"

text \<open>The errors of \<^verbatim>\<open>strconv\<close>: \<^verbatim>\<open>ErrSyntax\<close> and \<^verbatim>\<open>ErrRange\<close>.\<close>

datatype NumError = ErrSyntax | ErrRange

text \<open>Failures of the socket calls, as far as the code tells them apart.\<close>

datatype io_error = EPIPE | ECONNRESET | ETIMEDOUT | EOF | ErrUnexpectedEOF

text \<open>
  The error values of the file. Each \<^verbatim>\<open>errors.New\<close> and \<^verbatim>\<open>fmt.Errorf\<close> of the source
  is one constructor; the wrapped error of a \<^verbatim>\<open>%w\<close> is the constructor's argument.
\<close>

datatype error =
    InvalidParams                 \<comment> \<open>"invalid params"\<close>
  | EndpointUnavailable           \<comment> \<open>"socket connection to refiner is not available. ..."\<close>
  | InternalRpcError              \<comment> \<open>"internal rpc error"\<close>
  | RpcError bytes                \<comment> \<open>\<^verbatim>\<open>fmt.Errorf("%s", rpcErr)\<close>\<close>
  | UnexpectedResponse            \<comment> \<open>"unexpected response"\<close>
  | UnexpectedParse               \<comment> \<open>"failed to parse unexpected response"\<close>
  | EngineError bytes             \<comment> \<open>"engine error: %s"\<close>
  | EngineUnknownError            \<comment> \<open>"engine error: unknown error occurred"\<close>
  | ParseResultError NumError     \<comment> \<open>"failed to parse result as integer: %w"\<close>
  | UnmarshalResultError error    \<comment> \<open>"failed to unmarshal result: %w"\<close>
  | BuildRequestError error       \<comment> \<open>"failed to build request: %w"\<close>
  | SendRequestError error        \<comment> \<open>"failed to send request: %w"\<close>
  | KeyPathNotFoundError          \<comment> \<open>\<^verbatim>\<open>jsonparser.KeyPathNotFoundError\<close>\<close>
  | LibError string               \<comment> \<open>any other error of an imported package\<close>
  | IOError io_error              \<comment> \<open>an error of a socket call\<close>

text \<open>\<^verbatim>\<open>jsonparser.ValueType\<close>.\<close>

datatype ValueType = NotExist | String | Number | Object | Array | Boolean | Null | Unknown

text \<open>
  \<^verbatim>\<open>common.BlockNumberOrHash\<close>: the code reads its field \<^verbatim>\<open>BlockNumber\<close>, a pointer
  to a \<^verbatim>\<open>BN64\<close>, and no other.
\<close>

record BlockNumberOrHash =
  BlockNumber :: "BN64 option"

text \<open>
  A value of type \<^verbatim>\<open>any\<close>, by its dynamic type. A pointer type carries an option:
  \<open>AnyBlockNumberOrHashPtr None\<close> is the nil pointer of type
  \<^verbatim>\<open>*common.BlockNumberOrHash\<close>, while \<open>AnyNil\<close> is the nil interface value.
  \<open>'tx\<close> stands for \<^verbatim>\<open>engine.TransactionForCall\<close>.
\<close>

datatype 'tx any =
    AnyNil
  | AnyH256 H256
  | AnyTransactionForCall 'tx
  | AnyBlockNumberOrHashPtr "BlockNumberOrHash option"
  | AnyBN64Ptr "BN64 option"
  | AnyString string

text \<open>A panic of the Go runtime, or a normal return.\<close>

datatype panic = IndexOutOfRange nat nat | NilDereference

datatype 'a outcome = Panic panic | Return 'a

text \<open>
  The imported packages. \<open>jsonparser_Get d data keys\<close> is \<^verbatim>\<open>jsonparser.Get\<close> (value,
  type and error; the offset is never read). \<open>jsonparser_ArrayEach d data\<close> lists the
  elements for which \<^verbatim>\<open>jsonparser.ArrayEach\<close> calls its callback, with the error it
  returns in the end. \<open>json_Unmarshal d data\<close> is \<^verbatim>\<open>json.Unmarshal\<close> into a fresh
  \<^verbatim>\<open>response.CallFrame\<close> (type \<open>'f\<close>): the frame as the call leaves it, and the error.
  \<open>json_Marshal\<close> is \<^verbatim>\<open>json.Marshal\<close>. The three block numbers are the constants of
  package \<^verbatim>\<open>common\<close>.
\<close>

record ('tx, 'f) deps =
  jsonparser_Get :: "bytes \<Rightarrow> string list \<Rightarrow> bytes \<times> ValueType \<times> error option"
  jsonparser_ArrayEach :: "bytes \<Rightarrow> (bytes \<times> ValueType) list \<times> error option"
  json_Unmarshal :: "bytes \<Rightarrow> 'f \<times> error option"
  json_Marshal :: "'tx any \<Rightarrow> bytes \<times> error option"
  EarliestBlockNumber :: BN64
  LatestBlockNumber :: BN64
  PendingBlockNumber :: BN64

subsection \<open>\<^verbatim>\<open>strconv.ParseInt(s, 10, 64)\<close> and \<^verbatim>\<open>fmt.Sprintf("0x%x", val)\<close>\<close>

definition is_digit :: "char \<Rightarrow> bool" where
  "is_digit c = (48 \<le> (of_char c :: nat) \<and> (of_char c :: nat) \<le> 57)"

text \<open>
  The loop of \<^verbatim>\<open>strconv.ParseUint\<close> for base 10 and 64 bits: a byte that is no digit is
  a syntax error, an \<open>n\<close> that cannot take one more digit a range error.
\<close>

fun ParseUint_loop :: "nat \<Rightarrow> string \<Rightarrow> nat \<times> NumError option" where
  "ParseUint_loop n [] = (n, None)"
| "ParseUint_loop n (c # cs) =
     (if \<not> is_digit c then (0, Some ErrSyntax)
      else if n \<ge> (2 ^ 64 - 1) div 10 + 1 then (2 ^ 64 - 1, Some ErrRange)
      else let n1 = n * 10 + (of_char c - 48)
           in if n1 > 2 ^ 64 - 1 then (2 ^ 64 - 1, Some ErrRange)
              else ParseUint_loop n1 cs)"

definition ParseUint :: "string \<Rightarrow> nat \<times> NumError option" where
  "ParseUint s = (if s = [] then (0, Some ErrSyntax) else ParseUint_loop 0 s)"

text \<open>
  \<^verbatim>\<open>strconv.ParseInt\<close>: an optional sign, then \<^verbatim>\<open>ParseUint\<close>, then the check against
  the cutoff \<open>2 ^ 63\<close>. The result is an \<^verbatim>\<open>int64\<close>, read here as an integer.
\<close>

definition ParseInt :: "string \<Rightarrow> int \<times> NumError option" where
  "ParseInt s0 =
     (if s0 = [] then (0, Some ErrSyntax)
      else let neg = (hd s0 = CHR ''-'');
               s = (if hd s0 = CHR ''+'' \<or> hd s0 = CHR ''-'' then tl s0 else s0);
               (un, err) = ParseUint s
           in if err \<noteq> None \<and> err \<noteq> Some ErrRange then (0, err)
              else if \<not> neg \<and> un \<ge> 2 ^ 63 then (2 ^ 63 - 1, Some ErrRange)
              else if neg \<and> un > 2 ^ 63 then (- (2 ^ 63), Some ErrRange)
              else (if neg then - int un else int un, None))"

text \<open>The lower-case hexadecimal and the decimal numeral of a natural number.\<close>

fun hex :: "nat \<Rightarrow> string" where
  "hex n = (if n < 16 then [''0123456789abcdef'' ! n]
            else hex (n div 16) @ [''0123456789abcdef'' ! (n mod 16)])"

fun dec :: "nat \<Rightarrow> string" where
  "dec n = (if n < 10 then [''0123456789'' ! n]
            else dec (n div 10) @ [''0123456789'' ! (n mod 10)])"

declare hex.simps [simp del] dec.simps [simp del]

text \<open>
  \<^verbatim>\<open>fmt.Sprintf("0x%x", val)\<close> for an \<^verbatim>\<open>int64\<close>: the verb prints the sign, then the
  magnitude.
\<close>

definition Sprintf_0x_x :: "int \<Rightarrow> string" where
  "Sprintf_0x_x val =
     ''0x'' @ (if val < 0 then ''-'' @ hex (nat (- val)) else hex (nat val))"

subsection \<open>\<^verbatim>\<open>common.Uint256\<close>\<close>

definition hexval :: "char \<Rightarrow> nat option" where
  "hexval c =
     (let k = (of_char c :: nat)
      in if 48 \<le> k \<and> k \<le> 57 then Some (k - 48)
         else if 97 \<le> k \<and> k \<le> 102 then Some (k - 87)
         else if 65 \<le> k \<and> k \<le> 70 then Some (k - 55)
         else None)"

definition is_hex_digit :: "char \<Rightarrow> bool" where
  "is_hex_digit c = (hexval c \<noteq> None)"

definition hex_value :: "string \<Rightarrow> nat" where
  "hex_value ds = foldl (\<lambda>n c. 16 * n + (case hexval c of Some v \<Rightarrow> v | None \<Rightarrow> 0)) 0 ds"

text \<open>
  Modelled from the spec: \<^verbatim>\<open>Uint256.UnmarshalJSON\<close> of package \<^verbatim>\<open>common\<close> is not part of
  the sources at hand. The spec has it decode a \<^verbatim>\<open>0x\<close>-prefixed hexadecimal numeral into
  the fixed-width unsigned integer, failing on overflow or bad format.
\<close>

definition Uint256_UnmarshalJSON :: "bytes \<Rightarrow> error + Uint256" where
  "Uint256_UnmarshalJSON data =
     (if take 2 data = ''0x'' \<and> drop 2 data \<noteq> [] \<and> list_all is_hex_digit (drop 2 data)
         \<and> hex_value (drop 2 data) < 2 ^ 256
      then Inr (of_nat (hex_value (drop 2 data)))
      else Inl (LibError ''malformed number''))"

subsection \<open>The gas-estimate interpreter\<close>

definition handleEstimateGasError :: "('tx, 'f) deps \<Rightarrow> bytes \<Rightarrow> Uint256 option \<times> error option" where
  "handleEstimateGasError d res =
     (let (rpcErrData, t1, rpcErrDataParseErr) = jsonparser_Get d res [''error'', ''data'']
      in if rpcErrDataParseErr = None \<and> length rpcErrData > 0
         then (None, Some (EngineError rpcErrData))
         else let (rpcErrMsg, t2, rpcErrMsgParseErr) = jsonparser_Get d res [''error'', ''message'']
              in if rpcErrMsgParseErr = None \<and> length rpcErrMsg > 0
                 then (None, Some (EngineError rpcErrMsg))
                 else (None, Some EngineUnknownError))"

definition parseEstimateGasResponse :: "('tx, 'f) deps \<Rightarrow> bytes \<Rightarrow> Uint256 option \<times> error option" where
  "parseEstimateGasResponse d res =
     (let (result, resultType, err) = jsonparser_Get d res [''result'']
      in if err = None \<and> resultType = Number
         then (let (val, perr) = ParseInt result
               in case perr of
                    Some e \<Rightarrow> (None, Some (ParseResultError e))
                  | None \<Rightarrow>
                      (let hexStr = Sprintf_0x_x val
                       in case Uint256_UnmarshalJSON hexStr of
                            Inl e \<Rightarrow> (None, Some (UnmarshalResultError e))
                          | Inr resp \<Rightarrow> (Some resp, None)))
         else handleEstimateGasError d res)"

subsection \<open>The connection\<close>

text \<open>
  \<^verbatim>\<open>rpcClient\<close>: \<open>conn\<close> is the socket in use (\<open>None\<close> is the nil interface value); a
  socket is known by a number. The mutex is not a field here: a sequential call locks and
  unlocks it; the section on concurrent callers has it in its state.
\<close>

record rpcClient =
  conn :: "nat option"
  network :: string
  address :: string
  timeout :: nat

definition newRPCClient :: "string \<Rightarrow> string \<Rightarrow> nat \<Rightarrow> rpcClient \<times> error option" where
  "newRPCClient net addr tmo = (\<lparr>conn = None, network = net, address = addr, timeout = tmo\<rparr>, None)"

text \<open>The calls a function makes on the operating system, in order.\<close>

datatype event =
    Stat string                 \<comment> \<open>\<^verbatim>\<open>os.Stat(address)\<close>\<close>
  | Dial string string          \<comment> \<open>\<^verbatim>\<open>net.Dial(network, address)\<close>\<close>
  | SetDeadline nat nat         \<comment> \<open>socket, timeout\<close>
  | Write nat bytes             \<comment> \<open>socket, bytes\<close>
  | Read nat nat                \<comment> \<open>socket, number of bytes asked for\<close>

text \<open>
  What \<^verbatim>\<open>os.Stat\<close> answers: no error, an error for which \<^verbatim>\<open>os.IsNotExist\<close> holds, or
  another error.
\<close>

datatype stat_result = StatOk | StatNotExist | StatOtherError

record reconnect_io =
  Stat_answer :: stat_result
  Dial_answer :: "io_error + nat"

definition reconnect :: "rpcClient \<Rightarrow> reconnect_io \<Rightarrow> error option \<times> rpcClient \<times> event list" where
  "reconnect rc io =
     (if Stat_answer io = StatNotExist
      then (Some EndpointUnavailable, rc, [Stat (address rc)])
      else case Dial_answer io of
             Inl e \<Rightarrow> (Some EndpointUnavailable, rc, [Stat (address rc), Dial (network rc) (address rc)])
           | Inr c \<Rightarrow> (None, rc\<lparr>conn := Some c\<rparr>, [Stat (address rc), Dial (network rc) (address rc)]))"

text \<open>
  The answers of the operating system to one call of \<^verbatim>\<open>request\<close>: to the reconnect of
  line 270, to \<^verbatim>\<open>SetDeadline\<close>, to the write of the length, to the reconnect of line 283,
  to the write of the body, to the read of the length and to \<^verbatim>\<open>io.ReadFull\<close> (the bytes
  the socket delivers, and the error it gives once they are read).
\<close>

record request_io =
  reconnect_nil :: reconnect_io
  SetDeadline_answer :: "io_error option"
  Write_len_answer :: "io_error option"
  reconnect_EPIPE :: reconnect_io
  Write_body_answer :: "io_error option"
  Read_len_answer :: "io_error + 32 word"
  ReadFull_answer :: "bytes \<times> io_error"

text \<open>\<^verbatim>\<open>binary.Write(conn, binary.LittleEndian, w)\<close> writes these four bytes.\<close>

definition le32 :: "32 word \<Rightarrow> bytes" where
  "le32 w = map (\<lambda>i. char_of (unat (drop_bit (8 * i) w))) [0, 1, 2, 3]"

text \<open>
  \<^verbatim>\<open>io.ReadFull(rc.conn, buf)\<close> on \<^verbatim>\<open>buf := make([]byte, n)\<close>: the buffer has \<open>n\<close> bytes
  whatever happens. It is filled when the socket delivers \<open>n\<close> bytes or more; otherwise
  the bytes that came are followed by zeros, and the error is that of the socket, with
  \<^verbatim>\<open>io.ErrUnexpectedEOF\<close> in place of \<^verbatim>\<open>io.EOF\<close> after a partial read.
\<close>

definition ReadFull :: "nat \<Rightarrow> bytes \<times> io_error \<Rightarrow> bytes \<times> io_error option" where
  "ReadFull n ans =
     (let (data, e) = ans
      in if n \<le> length data then (take n data, None)
         else (data @ replicate (n - length data) (CHR 0x00),
               Some (if e = EOF \<and> data \<noteq> [] then ErrUnexpectedEOF else e)))"

text \<open>
  Lines 274 to 303 of \<^verbatim>\<open>request\<close>, between \<^verbatim>\<open>Lock\<close> and \<^verbatim>\<open>Unlock\<close>, on the socket \<open>c\<close>
  that \<^verbatim>\<open>rc.conn\<close> holds. \<^verbatim>\<open>errors.Is(err, syscall.EPIPE)\<close> is asked of the error of
  the first write only.
\<close>

definition request_locked ::
  "rpcClient \<Rightarrow> nat \<Rightarrow> request_io \<Rightarrow> bytes \<Rightarrow> event list
     \<Rightarrow> bytes option \<times> error option \<times> rpcClient \<times> event list" where
  "request_locked rc c io req log =
     (let log1 = log @ [SetDeadline c (timeout rc)]
      in case SetDeadline_answer io of
           Some e \<Rightarrow> (None, Some (IOError e), rc, log1)
         | None \<Rightarrow>
             (let log2 = log1 @ [Write c (le32 (of_nat (length req)))]
              in case Write_len_answer io of
                   Some e \<Rightarrow>
                     (if e = EPIPE
                      then (let (rerr, rc', rlog) = reconnect rc (reconnect_EPIPE io)
                            in if rerr \<noteq> None then (None, rerr, rc', log2 @ rlog)
                               else (None, Some (IOError e), rc', log2 @ rlog))
                      else (None, Some (IOError e), rc, log2))
                 | None \<Rightarrow>
                     (let log3 = log2 @ [Write c req]
                      in case Write_body_answer io of
                           Some e \<Rightarrow> (None, Some (IOError e), rc, log3)
                         | None \<Rightarrow>
                             (let log4 = log3 @ [Read c 4]
                              in case Read_len_answer io of
                                   Inl e \<Rightarrow> (None, Some (IOError e), rc, log4)
                                 | Inr l \<Rightarrow>
                                     (let (buf, rerr) = ReadFull (unat l) (ReadFull_answer io)
                                      in (Some buf, map_option IOError rerr, rc,
                                          log4 @ [Read c (unat l)]))))))"

text \<open>
  \<^verbatim>\<open>request\<close>. A nil \<^verbatim>\<open>rc.conn\<close> after a reconnect that reported no error would make
  \<^verbatim>\<open>rc.conn.SetDeadline\<close> panic; \<open>reconnect\<close> never leaves that state.
\<close>

definition request ::
  "rpcClient \<Rightarrow> request_io \<Rightarrow> bytes
     \<Rightarrow> (bytes option \<times> error option \<times> rpcClient \<times> event list) outcome" where
  "request rc io req =
     (case conn rc of
        Some c \<Rightarrow> Return (request_locked rc c io req [])
      | None \<Rightarrow>
          (let (err, rc', log) = reconnect rc (reconnect_nil io)
           in if err \<noteq> None then Return (None, err, rc', log)
              else case conn rc' of
                     None \<Rightarrow> Panic NilDereference
                   | Some c \<Rightarrow> Return (request_locked rc' c io req log)))"

definition reconnects :: "event list \<Rightarrow> nat" where
  "reconnects log = length (filter (\<lambda>e. case e of Stat a \<Rightarrow> True | _ \<Rightarrow> False) log)"

definition dials :: "event list \<Rightarrow> nat" where
  "dials log = length (filter (\<lambda>e. case e of Dial n a \<Rightarrow> True | _ \<Rightarrow> False) log)"

subsection \<open>Requests\<close>

text \<open>The loop of \<^verbatim>\<open>buildRequest\<close> over the parameters.\<close>

fun buildRequest_loop ::
  "('tx, 'f) deps \<Rightarrow> bytes \<Rightarrow> bool \<Rightarrow> 'tx any list \<Rightarrow> bytes option \<times> error option" where
  "buildRequest_loop d b first [] = (Some (b @ '']}''), None)"
| "buildRequest_loop d b first (param # params) =
     (let (p, err) = json_Marshal d param
      in if err \<noteq> None then (None, err)
         else buildRequest_loop d ((if \<not> first then b @ '','' else b) @ p) False params)"

definition buildRequest ::
  "('tx, 'f) deps \<Rightarrow> string \<Rightarrow> 'tx any list \<Rightarrow> bytes option \<times> error option" where
  \<open>buildRequest d method params =
     buildRequest_loop d (''{"id":1,"jsonrpc":"2.0","method":"'' @ method @ ''","params":['') True params\<close>

text \<open>A nil slice reads as the empty one.\<close>

definition as_bytes :: "bytes option \<Rightarrow> bytes" where
  "as_bytes b = (case b of None \<Rightarrow> [] | Some x \<Rightarrow> x)"

subsection \<open>The trace interpreter\<close>

text \<open>
  The callback that \<^verbatim>\<open>TraceTransaction\<close> hands to \<^verbatim>\<open>jsonparser.ArrayEach\<close>, folded over
  the elements: an element that does not decode is skipped (its error goes to the \<^verbatim>\<open>err\<close>
  of the enclosing function, which is not read again), another is appended.
\<close>

definition collect_traces :: "('tx, 'f) deps \<Rightarrow> (bytes \<times> ValueType) list \<Rightarrow> 'f list" where
  "collect_traces d elems =
     foldl (\<lambda>traces (v, dataType).
              (let (trace, uerr) = json_Unmarshal d v
               in if uerr \<noteq> None then traces else traces @ [trace])) [] elems"

text \<open>Lines 158 to 193 of \<^verbatim>\<open>TraceTransaction\<close>: what it makes of the response \<open>res\<close>.\<close>

definition TraceTransaction_response ::
  "('tx, 'f) deps \<Rightarrow> bytes \<Rightarrow> 'f option \<times> error option" where
  "TraceTransaction_response d res =
     (let (result, resultType, err) = jsonparser_Get d res [''result'']
      in if err \<noteq> None \<and> err \<noteq> Some KeyPathNotFoundError then (None, err)
         else case resultType of
                NotExist \<Rightarrow>
                  (let (rpcErr, rpcErrType, err2) = jsonparser_Get d res [''error'', ''message'']
                   in if err2 \<noteq> None \<or> rpcErrType \<noteq> String then (None, Some InternalRpcError)
                      else (None, Some (RpcError rpcErr)))
              | Object \<Rightarrow>
                  (let (trace, uerr) = json_Unmarshal d result
                   in (Some trace, uerr))
              | Array \<Rightarrow>
                  (let (elems, aerr) = jsonparser_ArrayEach d result;
                       traces = collect_traces d elems
                   in if length traces \<noteq> 1 then (None, Some UnexpectedResponse)
                      else (Some (traces ! 0), aerr))
              | _ \<Rightarrow> (None, Some UnexpectedParse))"

definition TraceTransaction ::
  "('tx, 'f) deps \<Rightarrow> rpcClient \<Rightarrow> request_io \<Rightarrow> H256
     \<Rightarrow> ('f option \<times> error option \<times> rpcClient \<times> event list) outcome" where
  "TraceTransaction d rc io hash =
     (case buildRequest d ''debug_traceTransaction'' [AnyH256 hash] of
        (req, Some err) \<Rightarrow> Return (None, Some err, rc, [])
      | (req, None) \<Rightarrow>
          (case request rc io (as_bytes req) of
             Panic p \<Rightarrow> Panic p
           | Return (res, Some err, rc', log) \<Rightarrow> Return (None, Some err, rc', log)
           | Return (res, None, rc', log) \<Rightarrow>
               (let (trace, terr) = TraceTransaction_response d (as_bytes res)
                in Return (trace, terr, rc', log))))"

subsection \<open>Gas estimation\<close>

definition EstimateGas ::
  "('tx, 'f) deps \<Rightarrow> rpcClient \<Rightarrow> request_io \<Rightarrow> 'tx \<Rightarrow> BN64 option
     \<Rightarrow> (Uint256 option \<times> error option \<times> rpcClient \<times> event list) outcome" where
  "EstimateGas d rc io tx number =
     (case number of
        None \<Rightarrow> Panic NilDereference
      | Some n \<Rightarrow>
          (let blockParam =
                 (if n = EarliestBlockNumber d then AnyString ''earliest''
                  else if n = LatestBlockNumber d then AnyString ''latest''
                  else if n = PendingBlockNumber d then AnyString ''pending''
                  else AnyBN64Ptr number)
           in case buildRequest d ''eth_estimateGas'' [AnyTransactionForCall tx, blockParam] of
                (req, Some err) \<Rightarrow> Return (None, Some (BuildRequestError err), rc, [])
              | (req, None) \<Rightarrow>
                  (case request rc io (as_bytes req) of
                     Panic p \<Rightarrow> Panic p
                   | Return (res, Some err, rc', log) \<Rightarrow>
                       Return (None, Some (SendRequestError err), rc', log)
                   | Return (res, None, rc', log) \<Rightarrow>
                       (let (r, e) = parseEstimateGasResponse d (as_bytes res)
                        in Return (r, e, rc', log)))))"

subsection \<open>The hook\<close>

text \<open>What \<^verbatim>\<open>Pre\<close> stores in \<^verbatim>\<open>*response\<close>: the pointer one of the two calls returned.\<close>

datatype 'f response_value = TraceResponse "'f option" | GasResponse "Uint256 option"

text \<open>
  \<^verbatim>\<open>Pre\<close> returns whether the call was handled and the error; the third component is the
  value written to \<^verbatim>\<open>*response\<close>, \<open>None\<close> when the slot is left as it was. An index
  beyond the arguments panics, as \<^verbatim>\<open>args[0]\<close> and \<^verbatim>\<open>args[1]\<close> do.
\<close>

definition Pre ::
  "('tx, 'f) deps \<Rightarrow> rpcClient \<Rightarrow> request_io \<Rightarrow> string \<Rightarrow> 'tx any list
     \<Rightarrow> (bool \<times> error option \<times> 'f response_value option \<times> rpcClient \<times> event list) outcome" where
  "Pre d rc io name args =
     (if name = ''debug_traceTransaction'' then
        (if length args \<noteq> 1 then Return (False, Some InvalidParams, None, rc, [])
         else case args ! 0 of
                AnyH256 hash \<Rightarrow>
                  (case TraceTransaction d rc io hash of
                     Panic p \<Rightarrow> Panic p
                   | Return (res, Some err, rc', log) \<Rightarrow> Return (True, Some err, None, rc', log)
                   | Return (res, None, rc', log) \<Rightarrow>
                       Return (True, None, Some (TraceResponse res), rc', log))
              | _ \<Rightarrow> Return (False, Some InvalidParams, None, rc, []))
      else if name = ''eth_estimateGas'' then
        (if length args \<le> 0 then Panic (IndexOutOfRange 0 (length args))
         else case args ! 0 of
                AnyTransactionForCall tx \<Rightarrow>
                  (if length args \<le> 1 then Panic (IndexOutOfRange 1 (length args))
                   else case args ! 1 of
                          AnyBlockNumberOrHashPtr p \<Rightarrow>
                            (let blockNumberOrHash =
                                   (case p of
                                      None \<Rightarrow> \<lparr>BlockNumber = Some (LatestBlockNumber d)\<rparr>
                                    | Some b \<Rightarrow> b)
                             in case EstimateGas d rc io tx (BlockNumber blockNumberOrHash) of
                                  Panic p \<Rightarrow> Panic p
                                | Return (res, Some err, rc', log) \<Rightarrow>
                                    Return (True, Some err, None, rc', log)
                                | Return (res, None, rc', log) \<Rightarrow>
                                    Return (True, None, Some (GasResponse res), rc', log))
                        | _ \<Rightarrow> Return (True, Some InvalidParams, None, rc, []))
              | _ \<Rightarrow> Return (True, Some InvalidParams, None, rc, []))
      else Return (False, None, None, rc, []))"

subsection \<open>Concurrent callers of \<^verbatim>\<open>request\<close>\<close>

text \<open>
  Several goroutines call \<^verbatim>\<open>request\<close> on one \<^verbatim>\<open>rpcClient\<close>. Each caller is at one
  statement of \<^verbatim>\<open>request\<close> (or of \<^verbatim>\<open>reconnect\<close>, inlined); a step runs that statement of
  one caller, with the answer of the operating system to the call it makes. The flag of
  the three positions of \<^verbatim>\<open>reconnect\<close> tells the call of line 283 (the lock is held) from
  the call of line 270 (it is not).
\<close>

datatype pc =
    At_check               \<comment> \<open>line 269: \<^verbatim>\<open>if rc.conn == nil\<close>\<close>
  | At_Stat bool           \<comment> \<open>line 255: \<^verbatim>\<open>os.Stat(rc.address)\<close>\<close>
  | At_Dial bool           \<comment> \<open>line 259: \<^verbatim>\<open>net.Dial(rc.network, rc.address)\<close>\<close>
  | At_assign nat bool     \<comment> \<open>line 263: \<^verbatim>\<open>rc.conn = c\<close>\<close>
  | At_Lock                \<comment> \<open>line 274: \<^verbatim>\<open>rc.lock.Lock()\<close>\<close>
  | At_SetDeadline         \<comment> \<open>line 276\<close>
  | At_Write_len           \<comment> \<open>line 280\<close>
  | At_Write_body          \<comment> \<open>line 290\<close>
  | At_Read_len            \<comment> \<open>line 296\<close>
  | At_ReadFull            \<comment> \<open>line 302\<close>
  | Returned "error option"

datatype answer = Ok | NoSuchFile | Fail io_error

text \<open>
  The shared state: \<^verbatim>\<open>rc.conn\<close>, the holder of \<^verbatim>\<open>rc.lock\<close>, the sockets dialled so far
  (\<^verbatim>\<open>request\<close> closes none), every write in order (socket, caller, bytes), and where each
  caller is.
\<close>

record world =
  w_conn :: "nat option"
  w_lock :: "nat option"
  w_open :: "nat list"
  w_wire :: "(nat \<times> nat \<times> bytes) list"
  w_pcs :: "pc list"

definition goto :: "nat \<Rightarrow> pc \<Rightarrow> world \<Rightarrow> world" where
  "goto i p w = w\<lparr>w_pcs := (w_pcs w)[i := p]\<rparr>"

text \<open>A return; the deferred \<^verbatim>\<open>Unlock\<close> runs when the lock was taken.\<close>

definition finish :: "nat \<Rightarrow> bool \<Rightarrow> error option \<Rightarrow> world \<Rightarrow> world" where
  "finish i locked err w =
     (goto i (Returned err) w)\<lparr>w_lock := (if locked then None else w_lock w)\<rparr>"

text \<open>
  One step of caller \<open>i\<close>, whose request is \<open>req\<close>. Each of the five calls on the socket
  reads \<^verbatim>\<open>rc.conn\<close> anew. \<open>None\<close>: the caller does not move (it has returned, it waits
  for the lock, it is not a caller at all, or it would call a method of a nil \<^verbatim>\<open>rc.conn\<close>,
  which no caller past line 273 meets).
\<close>

definition step :: "bytes \<Rightarrow> nat \<Rightarrow> answer \<Rightarrow> world \<Rightarrow> world option" where
  "step req i ans w =
     (if length (w_pcs w) \<le> i then None
      else case w_pcs w ! i of
        At_check \<Rightarrow> Some (goto i (if w_conn w = None then At_Stat False else At_Lock) w)
      | At_Stat locked \<Rightarrow>
          Some (if ans = NoSuchFile then finish i locked (Some EndpointUnavailable) w
                else goto i (At_Dial locked) w)
      | At_Dial locked \<Rightarrow>
          Some (if ans = Ok
                then goto i (At_assign (length (w_open w)) locked)
                       (w\<lparr>w_open := w_open w @ [length (w_open w)]\<rparr>)
                else finish i locked (Some EndpointUnavailable) w)
      | At_assign c locked \<Rightarrow>
          Some (if locked then finish i True (Some (IOError EPIPE)) (w\<lparr>w_conn := Some c\<rparr>)
                else goto i At_Lock (w\<lparr>w_conn := Some c\<rparr>))
      | At_Lock \<Rightarrow>
          (if w_lock w = None then Some (goto i At_SetDeadline (w\<lparr>w_lock := Some i\<rparr>)) else None)
      | At_SetDeadline \<Rightarrow>
          (case w_conn w of
             None \<Rightarrow> None
           | Some c \<Rightarrow>
               (case ans of
                  Fail e \<Rightarrow> Some (finish i True (Some (IOError e)) w)
                | _ \<Rightarrow> Some (goto i At_Write_len w)))
      | At_Write_len \<Rightarrow>
          (case w_conn w of
             None \<Rightarrow> None
           | Some c \<Rightarrow>
               (case ans of
                  Fail e \<Rightarrow>
                    Some (if e = EPIPE then goto i (At_Stat True) w
                          else finish i True (Some (IOError e)) w)
                | _ \<Rightarrow>
                    Some (goto i At_Write_body
                            (w\<lparr>w_wire := w_wire w @ [(c, i, le32 (of_nat (length req)))]\<rparr>))))
      | At_Write_body \<Rightarrow>
          (case w_conn w of
             None \<Rightarrow> None
           | Some c \<Rightarrow>
               (case ans of
                  Fail e \<Rightarrow> Some (finish i True (Some (IOError e)) w)
                | _ \<Rightarrow> Some (goto i At_Read_len (w\<lparr>w_wire := w_wire w @ [(c, i, req)]\<rparr>))))
      | At_Read_len \<Rightarrow>
          (case w_conn w of
             None \<Rightarrow> None
           | Some c \<Rightarrow>
               (case ans of
                  Fail e \<Rightarrow> Some (finish i True (Some (IOError e)) w)
                | _ \<Rightarrow> Some (goto i At_ReadFull w)))
      | At_ReadFull \<Rightarrow>
          (case w_conn w of
             None \<Rightarrow> None
           | Some c \<Rightarrow>
               (case ans of
                  Fail e \<Rightarrow> Some (finish i True (Some (IOError e)) w)
                | _ \<Rightarrow> Some (finish i True None w)))
      | Returned err \<Rightarrow> None)"

text \<open>A schedule names, step by step, the caller that moves and the answer it gets.\<close>

fun run :: "bytes list \<Rightarrow> (nat \<times> answer) list \<Rightarrow> world \<Rightarrow> world option" where
  "run reqs [] w = Some w"
| "run reqs ((i, ans) # sched) w =
     (if length reqs \<le> i then None
      else case step (reqs ! i) i ans w of
             None \<Rightarrow> None
           | Some w' \<Rightarrow> run reqs sched w')"

text \<open>\<open>n\<close> callers enter \<^verbatim>\<open>request\<close> on a client that has no connection yet.\<close>

definition fresh_world :: "nat \<Rightarrow> world" where
  "fresh_world n =
     \<lparr>w_conn = None, w_lock = None, w_open = [], w_wire = [], w_pcs = replicate n At_check\<rparr>"

subsection \<open>Auxiliary notions of the statements\<close>

text \<open>The pointer and the error a call returned, when it returned.\<close>

definition returned ::
  "('a \<times> error option \<times> rpcClient \<times> event list) outcome \<Rightarrow> ('a \<times> error option) option" where
  "returned out = (case out of Panic p \<Rightarrow> None | Return (r, e, rc, log) \<Rightarrow> Some (r, e))"

definition events :: "('a \<times> 'b \<times> rpcClient \<times> event list) outcome \<Rightarrow> event list" where
  "events out = (case out of Panic p \<Rightarrow> [] | Return (r, e, rc, log) \<Rightarrow> log)"

text \<open>What \<^verbatim>\<open>Pre\<close> reported and wrote, when it returned.\<close>

definition hook_result ::
  "(bool \<times> error option \<times> 'r option \<times> rpcClient \<times> event list) outcome
     \<Rightarrow> (bool \<times> error option \<times> 'r option) option" where
  "hook_result out = (case out of Panic p \<Rightarrow> None | Return (h, e, w, rc, log) \<Rightarrow> Some (h, e, w))"

text \<open>The elements of an array that decode into the trace shape.\<close>

definition decoding :: "('tx, 'f) deps \<Rightarrow> (bytes \<times> ValueType) list \<Rightarrow> (bytes \<times> ValueType) list" where
  "decoding d elems = filter (\<lambda>(v, t). snd (json_Unmarshal d v) = None) elems"








text \<open>The parameter that \<^verbatim>\<open>EstimateGas\<close> sends for the block number \<open>k\<close> (lines 197 to 205).\<close>

definition blockParam :: "('tx, 'f) deps \<Rightarrow> BN64 \<Rightarrow> 'tx any" where
  "blockParam d k =
     (if k = EarliestBlockNumber d then AnyString ''earliest''
      else if k = LatestBlockNumber d then AnyString ''latest''
      else if k = PendingBlockNumber d then AnyString ''pending''
      else AnyBN64Ptr (Some k))"

subsection \<open>An instance for the examples\<close>

text \<open>
  Four responses of the refiner, and what the imported packages make of them:
  \<^verbatim>\<open>jsonparser.Get\<close> finds the value of the key and tells its type by its first byte,
  without reading further into it; \<^verbatim>\<open>json.Unmarshal\<close> into a struct accepts the empty
  object and rejects a number and a text that is no JSON. A frame is stood for by the
  text of an object that decodes to it.
\<close>

definition gas_response :: bytes where
  \<open>gas_response = ''{"id":1,"jsonrpc":"2.0","result":6712759}''\<close>

definition gas_response_big :: bytes where
  \<open>gas_response_big = ''{"id":1,"jsonrpc":"2.0","result":9223372036854775808}''\<close>

definition trace_response_two :: bytes where
  \<open>trace_response_two = ''{"id":1,"jsonrpc":"2.0","result":[{},5]}''\<close>

definition trace_response_bad :: bytes where
  \<open>trace_response_bad = ''{"id":1,"jsonrpc":"2.0","result":{"type":}}''\<close>

definition example_Get :: "bytes \<Rightarrow> string list \<Rightarrow> bytes \<times> ValueType \<times> error option" where
  \<open>example_Get data keys =
     (if keys = [''result''] \<and> data = gas_response then (''6712759'', Number, None)
      else if keys = [''result''] \<and> data = gas_response_big
        then (''9223372036854775808'', Number, None)
      else if keys = [''result''] \<and> data = trace_response_two then (''[{},5]'', Array, None)
      else if keys = [''result''] \<and> data = trace_response_bad then (''{"type":}'', Object, None)
      else ([], NotExist, Some KeyPathNotFoundError))\<close>

definition example_Marshal :: "unit any \<Rightarrow> bytes \<times> error option" where
  \<open>example_Marshal a =
     (case a of
        AnyNil \<Rightarrow> (''null'', None)
      | AnyH256 h \<Rightarrow>
          (''"0x'' @ replicate (64 - length (hex (unat h))) (CHR ''0'') @ hex (unat h) @ ''"'', None)
      | AnyTransactionForCall tx \<Rightarrow> (''{}'', None)
      | AnyBlockNumberOrHashPtr p \<Rightarrow> (''null'', None)
      | AnyBN64Ptr p \<Rightarrow>
          (case p of None \<Rightarrow> (''null'', None) | Some n \<Rightarrow> (''"0x'' @ hex (unat n) @ ''"'', None))
      | AnyString s \<Rightarrow> (''"'' @ s @ ''"'', None))\<close>

definition example_deps :: "(unit, bytes) deps" where
  "example_deps =
     \<lparr>jsonparser_Get = example_Get,
      jsonparser_ArrayEach =
        (\<lambda>data. if data = ''[{},5]'' then ([(''{}'', Object), (''5'', Number)], None)
                else ([], Some (LibError ''malformed array''))),
      json_Unmarshal =
        (\<lambda>data. if data = ''{}'' then (''{}'', None)
                else (''{}'', Some (LibError ''json: cannot unmarshal''))),
      json_Marshal = example_Marshal,
      EarliestBlockNumber = 0,
      LatestBlockNumber = - 1,
      PendingBlockNumber = - 2\<rparr>"

text \<open>A client with an established connection, and one without.\<close>

definition example_client :: rpcClient where
  "example_client =
     \<lparr>conn = Some 3, network = ''unix'', address = ''/tmp/refiner.sock'', timeout = 5000000000\<rparr>"

definition tcp_client :: rpcClient where
  "tcp_client =
     \<lparr>conn = None, network = ''tcp'', address = ''127.0.0.1:9000'', timeout = 5000000000\<rparr>"

text \<open>Every call succeeds, and the refiner answers \<open>res\<close>.\<close>

definition io_ok :: "bytes \<Rightarrow> request_io" where
  "io_ok res =
     \<lparr>reconnect_nil = \<lparr>Stat_answer = StatOk, Dial_answer = Inr 4\<rparr>,
      SetDeadline_answer = None,
      Write_len_answer = None,
      reconnect_EPIPE = \<lparr>Stat_answer = StatOk, Dial_answer = Inr 5\<rparr>,
      Write_body_answer = None,
      Read_len_answer = Inr (of_nat (length res)),
      ReadFull_answer = (res, EOF)\<rparr>"

section \<open>Properties\<close>

subsection \<open>Numerals\<close>

lemma hexval_digit: "d < 16 \<Longrightarrow> hexval (''0123456789abcdef'' ! d) = Some d"
proof -
  assume "d < 16"
  then have "d = 0 \<or> d = 1 \<or> d = 2 \<or> d = 3 \<or> d = 4 \<or> d = 5 \<or> d = 6 \<or> d = 7 \<or> d = 8
      \<or> d = 9 \<or> d = 10 \<or> d = 11 \<or> d = 12 \<or> d = 13 \<or> d = 14 \<or> d = 15"
    by arith
  then show ?thesis by (elim disjE) (simp_all add: hexval_def)
qed

lemma hex_value_snoc:
  "hex_value (ds @ [c]) = 16 * hex_value ds + (case hexval c of Some v \<Rightarrow> v | None \<Rightarrow> 0)"
  by (simp add: hex_value_def)

lemma hex_value_single:
  "hex_value [c] = (case hexval c of Some v \<Rightarrow> v | None \<Rightarrow> 0)"
  by (simp add: hex_value_def)

lemma hex_value_hex: "hex_value (hex n) = n"
proof (induction n rule: hex.induct)
  case (1 n)
  show ?case
  proof (cases "n < 16")
    case True
    then show ?thesis by (subst hex.simps) (simp add: hex_value_single hexval_digit)
  next
    case False
    then have "hex_value (hex (n div 16)) = n div 16" using 1 by simp
    with False show ?thesis
      by (subst hex.simps) (simp add: hex_value_snoc hexval_digit)
  qed
qed

lemma hex_all_hexdigits: "list_all is_hex_digit (hex n)"
proof (induction n rule: hex.induct)
  case (1 n)
  show ?case
  proof (cases "n < 16")
    case True
    then show ?thesis by (subst hex.simps) (simp add: hexval_digit is_hex_digit_def)
  next
    case False
    then have "list_all is_hex_digit (hex (n div 16))" using 1 by simp
    with False show ?thesis
      by (subst hex.simps) (simp add: hexval_digit is_hex_digit_def)
  qed
qed

lemma hex_nonempty: "hex n \<noteq> []"
  by (subst hex.simps) simp

lemma Uint256_UnmarshalJSON_hex:
  "n < 2 ^ 256 \<Longrightarrow> Uint256_UnmarshalJSON (''0x'' @ hex n) = Inr (of_nat n)"
  by (simp add: Uint256_UnmarshalJSON_def hex_value_hex hex_all_hexdigits hex_nonempty)

lemma foldl_digits_snoc:
  "foldl (\<lambda>a c. a * 10 + (of_char c - 48)) n (cs @ [c]) =
     foldl (\<lambda>a c. a * 10 + (of_char c - 48)) n cs * 10 + (of_char c - 48)"
  by simp

lemma foldl_digits_ge: "n \<le> foldl (\<lambda>a c. a * 10 + (of_char c - 48)) (n::nat) s"
proof (induction s arbitrary: n)
  case Nil
  show ?case by simp
next
  case (Cons c cs)
  have "n \<le> n * 10 + (of_char c - 48)" by simp
  also have "\<dots> \<le> foldl (\<lambda>a c. a * 10 + (of_char c - 48)) (n * 10 + (of_char c - 48)) cs"
    by (rule Cons.IH)
  finally show ?case by simp
qed

lemma ParseUint_loop_digits:
  "list_all is_digit s \<Longrightarrow> foldl (\<lambda>a c. a * 10 + (of_char c - 48)) n s < 2 ^ 64
     \<Longrightarrow> ParseUint_loop n s = (foldl (\<lambda>a c. a * 10 + (of_char c - 48)) n s, None)"
proof (induction s arbitrary: n)
  case Nil
  show ?case by simp
next
  case (Cons c cs)
  let ?n1 = "n * 10 + (of_char c - 48)"
  have d: "is_digit c" and ds: "list_all is_digit cs" using Cons.prems(1) by simp_all
  have v: "foldl (\<lambda>a c. a * 10 + (of_char c - 48)) ?n1 cs < 2 ^ 64" using Cons.prems(2) by simp
  have n1: "?n1 < 2 ^ 64" using foldl_digits_ge [of ?n1 cs] v by linarith
  then have n: "n < (2 ^ 64 - 1) div 10 + 1" by simp
  have "ParseUint_loop ?n1 cs = (foldl (\<lambda>a c. a * 10 + (of_char c - 48)) ?n1 cs, None)"
    by (rule Cons.IH [OF ds v])
  with d n n1 show ?case by (simp add: Let_def)
qed

lemma digit_char:
  "d < 10 \<Longrightarrow> is_digit (''0123456789'' ! d) \<and> of_char (''0123456789'' ! d) - 48 = d"
proof -
  assume "d < 10"
  then have "d = 0 \<or> d = 1 \<or> d = 2 \<or> d = 3 \<or> d = 4 \<or> d = 5 \<or> d = 6 \<or> d = 7 \<or> d = 8 \<or> d = 9"
    by arith
  then show ?thesis by (elim disjE) (simp_all add: is_digit_def)
qed

lemma dec_digits: "list_all is_digit (dec n)"
proof (induction n rule: dec.induct)
  case (1 n)
  show ?case
  proof (cases "n < 10")
    case True
    then show ?thesis by (subst dec.simps) (simp add: digit_char)
  next
    case False
    then have "list_all is_digit (dec (n div 10))" using 1 by simp
    with False show ?thesis by (subst dec.simps) (simp add: digit_char)
  qed
qed

lemma foldl_digits_dec: "foldl (\<lambda>a c. a * 10 + (of_char c - 48)) 0 (dec n) = n"
proof (induction n rule: dec.induct)
  case (1 n)
  show ?case
  proof (cases "n < 10")
    case True
    then show ?thesis by (subst dec.simps) (simp add: digit_char)
  next
    case False
    then have "foldl (\<lambda>a c. a * 10 + (of_char c - 48)) 0 (dec (n div 10)) = n div 10"
      using 1 by simp
    with False show ?thesis by (subst dec.simps) (simp add: digit_char)
  qed
qed

lemma dec_nonempty: "dec n \<noteq> []"
  by (subst dec.simps) simp

lemma is_digit_not_sign: "is_digit c \<Longrightarrow> c \<noteq> CHR ''+'' \<and> c \<noteq> CHR ''-''"
  by (auto simp: is_digit_def)

lemma hd_dec_not_sign: "hd (dec n) \<noteq> CHR ''+'' \<and> hd (dec n) \<noteq> CHR ''-''"
proof -
  have "is_digit (hd (dec n))"
    using dec_digits [of n] dec_nonempty [of n] by (cases "dec n") simp_all
  then show ?thesis by (rule is_digit_not_sign)
qed

lemma ParseUint_dec: "n < 2 ^ 64 \<Longrightarrow> ParseUint (dec n) = (n, None)"
  using ParseUint_loop_digits [of "dec n" 0]
  by (simp add: ParseUint_def dec_nonempty dec_digits foldl_digits_dec)

lemma ParseInt_dec:
  assumes "n < 2 ^ 63"
  shows "ParseInt (dec n) = (int n, None)"
proof -
  have "n < 2 ^ 64" using assms by simp
  then have u: "ParseUint (dec n) = (n, None)" by (rule ParseUint_dec)
  show ?thesis
    using assms hd_dec_not_sign [of n]
    by (simp add: ParseInt_def dec_nonempty u)
qed

lemma ParseUint_loop_overflow:
  "list_all is_digit s \<Longrightarrow> n < 2 ^ 64
     \<Longrightarrow> 2 ^ 64 \<le> foldl (\<lambda>a c. a * 10 + (of_char c - 48)) n s
     \<Longrightarrow> ParseUint_loop n s = (2 ^ 64 - 1, Some ErrRange)"
proof (induction s arbitrary: n)
  case Nil
  then show ?case by simp
next
  case (Cons c cs)
  let ?n1 = "n * 10 + (of_char c - 48)"
  have d: "is_digit c" and ds: "list_all is_digit cs" using Cons.prems(1) by simp_all
  have v: "2 ^ 64 \<le> foldl (\<lambda>a c. a * 10 + (of_char c - 48)) ?n1 cs" using Cons.prems(3) by simp
  show ?case
  proof (cases "(2 ^ 64 - 1) div 10 + 1 \<le> n")
    case True
    with d show ?thesis by simp
  next
    case False
    with d have step: "ParseUint_loop n (c # cs)
        = (if 2 ^ 64 - 1 < ?n1 then (2 ^ 64 - 1, Some ErrRange) else ParseUint_loop ?n1 cs)"
      by (simp add: Let_def)
    show ?thesis
    proof (cases "2 ^ 64 - 1 < ?n1")
      case True
      then show ?thesis unfolding step by (simp only: if_True)
    next
      case False
      then have "?n1 < 2 ^ 64" by simp
      then have "ParseUint_loop ?n1 cs = (2 ^ 64 - 1, Some ErrRange)"
        by (rule Cons.IH [OF ds _ v])
      with False show ?thesis unfolding step by (simp only: if_False)
    qed
  qed
qed

lemma ParseInt_dec_range:
  assumes "2 ^ 63 \<le> n"
  shows "ParseInt (dec n) = (2 ^ 63 - 1, Some ErrRange)"
proof (cases "n < 2 ^ 64")
  case True
  then have u: "ParseUint (dec n) = (n, None)" by (rule ParseUint_dec)
  show ?thesis
    using assms hd_dec_not_sign [of n]
    by (simp add: ParseInt_def dec_nonempty u)
next
  case False
  then have "2 ^ 64 \<le> foldl (\<lambda>a c. a * 10 + (of_char c - 48)) (0::nat) (dec n)"
    by (simp add: foldl_digits_dec)
  then have "ParseUint_loop 0 (dec n) = (2 ^ 64 - 1, Some ErrRange)"
    using ParseUint_loop_overflow [of "dec n" 0] by (simp add: dec_digits)
  then have u: "ParseUint (dec n) = (2 ^ 64 - 1, Some ErrRange)"
    by (simp add: ParseUint_def dec_nonempty)
  show ?thesis
    using hd_dec_not_sign [of n]
    by (simp add: ParseInt_def dec_nonempty u)
qed

lemma Sprintf_0x_x_nat: "Sprintf_0x_x (int n) = ''0x'' @ hex n"
  by (simp add: Sprintf_0x_x_def)

subsection \<open>Results, errors and the array of traces\<close>

lemma events_Return: "events (Return x) = snd (snd (snd x))"
  by (cases x) (simp add: events_def)


lemma returned_Some: "returned out = Some (r, e) \<Longrightarrow> \<exists>rc log. out = Return (r, e, rc, log)"
  by (cases out) (auto simp: returned_def)













lemma collect_traces_foldl:
  "foldl (\<lambda>traces (v, dataType).
            (let (trace, uerr) = json_Unmarshal d v
             in if uerr \<noteq> None then traces else traces @ [trace])) acc elems
     = acc @ map (\<lambda>(v, t). fst (json_Unmarshal d v)) (decoding d elems)"
proof (induction elems arbitrary: acc)
  case Nil
  show ?case by (simp add: decoding_def)
next
  case (Cons x xs)
  obtain v t where x: "x = (v, t)" by (cases x)
  obtain tr ue where u: "json_Unmarshal d v = (tr, ue)" by (cases "json_Unmarshal d v")
  show ?case
    using Cons.IH by (cases ue) (simp_all add: x u decoding_def)
qed

lemma collect_traces_decoding:
  "collect_traces d elems = map (\<lambda>(v, t). fst (json_Unmarshal d v)) (decoding d elems)"
  unfolding collect_traces_def by (simp only: collect_traces_foldl append_Nil)

lemma TraceTransaction_response_array:
  assumes "jsonparser_Get d res [''result''] = (result, Array, None)"
    and "jsonparser_ArrayEach d result = (elems, aerr)"
  shows "TraceTransaction_response d res =
     (if length (decoding d elems) = 1
      then (Some (fst (json_Unmarshal d (fst (decoding d elems ! 0)))), aerr)
      else (None, Some UnexpectedResponse))"
proof (cases "length (decoding d elems) = 1")
  case True
  then obtain x where dx: "decoding d elems = [x]"
    by (cases "decoding d elems") simp_all
  obtain v t where x: "x = (v, t)" by (cases x)
  show ?thesis
    by (simp add: TraceTransaction_response_def assms collect_traces_decoding dx x)
next
  case False
  then show ?thesis
    by (simp add: TraceTransaction_response_def assms collect_traces_decoding)
qed













subsection \<open>The example instance\<close>

lemma buildRequest_loop_example:
  "\<exists>b'. buildRequest_loop example_deps b first ps = (Some b', None)"
proof (induction ps arbitrary: b first)
  case Nil
  show ?case by simp
next
  case (Cons p ps)
  have "snd (json_Marshal example_deps p) = None"
    by (cases p) (simp_all add: example_deps_def example_Marshal_def split: option.split)
  then obtain x where m: "json_Marshal example_deps p = (x, None)"
    by (cases "json_Marshal example_deps p") simp
  show ?case using Cons.IH by (simp add: m)
qed

lemma buildRequest_example: "\<exists>b. buildRequest example_deps m ps = (Some b, None)"
  unfolding buildRequest_def by (rule buildRequest_loop_example)

lemma buildRequest_example_snd: "snd (buildRequest example_deps m ps) = None"
  using buildRequest_example [of m ps] by auto

lemma unat_length32: "length r < 2 ^ 32 \<Longrightarrow> unat (of_nat (length r) :: 32 word) = length r"
  by (simp add: unat_of_nat)

lemma ReadFull_exact: "ReadFull (length r) (r, e) = (r, None)"
  by (simp add: ReadFull_def)

lemma example_lengths:
  "length gas_response < 2 ^ 32" "length gas_response_big < 2 ^ 32"
  "length trace_response_two < 2 ^ 32" "length trace_response_bad < 2 ^ 32"
  by (simp_all add: gas_response_def gas_response_big_def trace_response_two_def
      trace_response_bad_def)

lemma request_io_ok:
  assumes "length r < 2 ^ 32"
  shows "request example_client (io_ok r) x
     = Return (Some r, None, example_client,
         [SetDeadline 3 5000000000, Write 3 (le32 (of_nat (length x))), Write 3 x, Read 3 4,
          Read 3 (length r)])"
  by (simp add: request_def request_locked_def example_client_def io_ok_def
      unat_length32 [OF assms] ReadFull_exact)


lemma Get_example_two:
  "jsonparser_Get example_deps trace_response_two [''result''] = (''[{},5]'', Array, None)"
  by (simp add: example_deps_def example_Get_def trace_response_two_def gas_response_def
      gas_response_big_def)


lemma ArrayEach_example_two:
  "jsonparser_ArrayEach example_deps ''[{},5]'' = ([(''{}'', Object), (''5'', Number)], None)"
  by (simp add: example_deps_def)

lemma decoding_example_two:
  "decoding example_deps [(''{}'', Object), (''5'', Number)] = [(''{}'', Object)]"
  by (simp add: decoding_def example_deps_def)

lemma Unmarshal_example_empty: "json_Unmarshal example_deps ''{}'' = (''{}'', None)"
  by (simp add: example_deps_def)

lemma dec_6712759: "dec 6712759 = ''6712759''"
  by (simp add: dec.simps)

lemma Get_example_gas: "jsonparser_Get example_deps gas_response [''result''] = (''6712759'', Number, None)"
  by (simp add: example_deps_def example_Get_def)

lemma dec_2_63: "dec 9223372036854775808 = ''9223372036854775808''"
  by (simp add: dec.simps)

lemma Get_example_big:
  "jsonparser_Get example_deps gas_response_big [''result'']
     = (''9223372036854775808'', Number, None)"
  by (simp add: example_deps_def example_Get_def gas_response_big_def gas_response_def)

lemma TraceTransaction_example:
  assumes "length r < 2 ^ 32"
  shows "returned (TraceTransaction example_deps example_client (io_ok r) h)
     = Some (TraceTransaction_response example_deps r)"
proof -
  obtain b where b: "buildRequest example_deps ''debug_traceTransaction'' [AnyH256 h] = (Some b, None)"
    using buildRequest_example by blast
  show ?thesis
    by (simp add: TraceTransaction_def b request_io_ok [OF assms] returned_def as_bytes_def
        split_beta)
qed

lemma EstimateGas_example:
  assumes "length r < 2 ^ 32"
  shows "returned (EstimateGas example_deps example_client (io_ok r) tx (Some n))
     = Some (parseEstimateGasResponse example_deps r)"
  by (simp add: EstimateGas_def buildRequest_example_snd request_io_ok [OF assms] returned_def
      split_beta Let_def as_bytes_def)

lemma parse_example_gas: "parseEstimateGasResponse example_deps gas_response = (Some 6712759, None)"
proof -
  have p: "ParseInt ''6712759'' = (6712759, None)"
    by (simp add: ParseInt_def ParseUint_def is_digit_def)
  have h: "Sprintf_0x_x 6712759 = ''0x'' @ hex 6712759"
    by (simp add: Sprintf_0x_x_def)
  have "(6712759::nat) < 2 ^ 256" by simp
  then have u: "Uint256_UnmarshalJSON (''0x'' @ hex 6712759) = Inr 6712759"
    using Uint256_UnmarshalJSON_hex [of 6712759] by simp
  show ?thesis
    by (simp add: parseEstimateGasResponse_def Get_example_gas p h u del: append.simps)
qed

lemma handle_example: "handleEstimateGasError example_deps trace_response_two = (None, Some EngineUnknownError)"
  by (simp add: handleEstimateGasError_def example_deps_def example_Get_def)


lemma trace_example_two:
  "returned (TraceTransaction example_deps example_client (io_ok trace_response_two) 7)
     = Some (Some ''{}'', None)"
  by (simp add: TraceTransaction_example [OF example_lengths(3)]
      TraceTransaction_response_array [OF Get_example_two ArrayEach_example_two]
      decoding_example_two Unmarshal_example_empty)

lemma Pre_example_gas:
  "hook_result (Pre example_deps example_client (io_ok gas_response) ''eth_estimateGas''
       [AnyTransactionForCall (), AnyBlockNumberOrHashPtr None])
     = Some (True, None, Some (GasResponse (Some 6712759)))"
proof -
  have "returned (EstimateGas example_deps example_client (io_ok gas_response) ()
      (Some (LatestBlockNumber example_deps))) = Some (Some 6712759, None)"
    by (simp add: EstimateGas_example [OF example_lengths(1)] parse_example_gas)
  from returned_Some [OF this] obtain rc' log where
    "EstimateGas example_deps example_client (io_ok gas_response) ()
      (Some (LatestBlockNumber example_deps)) = Return (Some 6712759, None, rc', log)"
    by (elim exE)
  then show ?thesis by (simp add: Pre_def hook_result_def)
qed

subsection \<open>The hook: arity and type of the arguments\<close>

text \<open>
  Claim C1, as the code has it. For the method \<^verbatim>\<open>debug_traceTransaction\<close>, \<^verbatim>\<open>Pre\<close> fails with
  \<^verbatim>\<open>InvalidParams\<close> and reports the call as not handled (\<open>handled = False\<close>) in both
  cases: when the argument list does not have exactly one element, and when it has exactly
  one element that is not an \<^verbatim>\<open>H256\<close>. Nothing is written to the response slot and no
  call reaches the refiner.
\<close>

theorem Pre_trace_invalid_params:
  "(length args \<noteq> 1 \<longrightarrow>
      Pre d rc io ''debug_traceTransaction'' args = Return (False, Some InvalidParams, None, rc, []))
   \<and> (length args = 1 \<and> (\<forall>hash. args ! 0 \<noteq> AnyH256 hash) \<longrightarrow>
      Pre d rc io ''debug_traceTransaction'' args = Return (False, Some InvalidParams, None, rc, []))"
proof (intro conjI impI)
  assume "length args \<noteq> 1"
  then show "Pre d rc io ''debug_traceTransaction'' args = Return (False, Some InvalidParams, None, rc, [])"
    by (simp add: Pre_def)
next
  assume a: "length args = 1 \<and> (\<forall>hash. args ! 0 \<noteq> AnyH256 hash)"
  then show "Pre d rc io ''debug_traceTransaction'' args = Return (False, Some InvalidParams, None, rc, [])"
    by (cases "args ! 0") (simp_all add: Pre_def)
qed

theorem Pre_trace_invalid_params_witness:
  "Pre example_deps example_client (io_ok []) ''debug_traceTransaction'' []
     = Return (False, Some InvalidParams, None, example_client, [])
   \<and> Pre example_deps example_client (io_ok []) ''debug_traceTransaction'' [AnyString ''0xab'']
     = Return (False, Some InvalidParams, None, example_client, [])"
  using Pre_trace_invalid_params [of "[]" example_deps example_client "io_ok []"]
    Pre_trace_invalid_params [of "[AnyString ''0xab'']" example_deps example_client "io_ok []"]
  by simp

text \<open>
  Claim C1 as stated has the type mismatch reported as handled. With the single argument
  a string, \<^verbatim>\<open>Pre\<close> does not return \<open>handled = True\<close>.
\<close>

theorem Pre_trace_type_mismatch_counterexample:
  "Pre example_deps example_client (io_ok []) ''debug_traceTransaction'' [AnyString ''0xab'']
     \<noteq> Return (True, Some InvalidParams, None, example_client, [])"
  by (simp add: Pre_def)

text \<open>
  Claim C8, as the code has it. For the method \<^verbatim>\<open>eth_estimateGas\<close> there is no arity check:
  with no argument \<^verbatim>\<open>args[0]\<close> panics; with a single argument that is a
  \<^verbatim>\<open>TransactionForCall\<close>, \<^verbatim>\<open>args[1]\<close> panics; with a single argument of another type the
  type assertion on \<^verbatim>\<open>args[0]\<close> fails first and \<^verbatim>\<open>Pre\<close> returns \<^verbatim>\<open>InvalidParams\<close>, handled.
\<close>

theorem Pre_estimateGas_short_arguments:
  "Pre d rc io ''eth_estimateGas'' [] = Panic (IndexOutOfRange 0 0)
   \<and> Pre d rc io ''eth_estimateGas'' [AnyTransactionForCall tx] = Panic (IndexOutOfRange 1 1)
   \<and> ((\<forall>t. a \<noteq> AnyTransactionForCall t) \<longrightarrow>
        Pre d rc io ''eth_estimateGas'' [a] = Return (True, Some InvalidParams, None, rc, []))"
proof (intro conjI impI)
  show "Pre d rc io ''eth_estimateGas'' [] = Panic (IndexOutOfRange 0 0)"
    by (simp add: Pre_def)
  show "Pre d rc io ''eth_estimateGas'' [AnyTransactionForCall tx] = Panic (IndexOutOfRange 1 1)"
    by (simp add: Pre_def)
next
  assume "\<forall>t. a \<noteq> AnyTransactionForCall t"
  then show "Pre d rc io ''eth_estimateGas'' [a] = Return (True, Some InvalidParams, None, rc, [])"
    by (cases a) (simp_all add: Pre_def)
qed

theorem Pre_estimateGas_short_arguments_witness:
  "Pre example_deps example_client (io_ok []) ''eth_estimateGas'' [] = Panic (IndexOutOfRange 0 0)
   \<and> Pre example_deps example_client (io_ok []) ''eth_estimateGas'' [AnyTransactionForCall ()]
       = Panic (IndexOutOfRange 1 1)
   \<and> Pre example_deps example_client (io_ok []) ''eth_estimateGas'' [AnyH256 7]
       = Return (True, Some InvalidParams, None, example_client, [])"
  using Pre_estimateGas_short_arguments [of example_deps example_client "io_ok []" "()" "AnyH256 7"]
  by simp

text \<open>
  Claim C8 as stated has every list of fewer than two arguments panic. A single argument
  that is no \<^verbatim>\<open>TransactionForCall\<close> makes \<^verbatim>\<open>Pre\<close> return \<^verbatim>\<open>InvalidParams\<close> instead.
\<close>

theorem Pre_estimateGas_one_argument_counterexample:
  "Pre example_deps example_client (io_ok []) ''eth_estimateGas'' [AnyH256 7]
     = Return (True, Some InvalidParams, None, example_client, [])
   \<and> Pre example_deps example_client (io_ok []) ''eth_estimateGas'' [AnyH256 7]
     \<noteq> Panic (IndexOutOfRange 1 1)"
  by (simp add: Pre_def)

text \<open>
  Claim C9. \<^verbatim>\<open>EstimateGas\<close> with a nil block-number pointer panics with a nil dereference
  (\<^verbatim>\<open>switch *number\<close>); \<^verbatim>\<open>Pre\<close> passes such a pointer whenever its second argument is a
  non-nil \<^verbatim>\<open>*BlockNumberOrHash\<close> whose field \<^verbatim>\<open>BlockNumber\<close> is nil, and so panics too,
  whatever the transaction and the answers of the refiner.
\<close>

theorem EstimateGas_nil_block_number:
  "EstimateGas d rc io tx None = Panic NilDereference
   \<and> (BlockNumber b = None \<longrightarrow>
        Pre d rc io ''eth_estimateGas'' (AnyTransactionForCall tx # AnyBlockNumberOrHashPtr (Some b) # rest)
          = Panic NilDereference)"
  by (simp add: EstimateGas_def Pre_def)

theorem EstimateGas_nil_block_number_witness:
  "EstimateGas example_deps example_client (io_ok gas_response) () None = Panic NilDereference
   \<and> Pre example_deps example_client (io_ok gas_response) ''eth_estimateGas''
        [AnyTransactionForCall (), AnyBlockNumberOrHashPtr (Some \<lparr>BlockNumber = None\<rparr>)]
      = Panic NilDereference"
  using EstimateGas_nil_block_number
    [of example_deps example_client "io_ok gas_response" "()" "\<lparr>BlockNumber = None\<rparr>" "[]"]
  by simp

subsection \<open>The connection\<close>

text \<open>
  Claim C10. Whatever the transport kind and whatever \<^verbatim>\<open>net.Dial\<close> would answer: when
  \<^verbatim>\<open>os.Stat\<close> reports that the address does not exist, \<^verbatim>\<open>reconnect\<close> fails with the
  \<^verbatim>\<open>EndpointUnavailable\<close> message, leaves the client as it was and never dials. The witness
  is a TCP address that would be dialable.
\<close>

theorem reconnect_needs_path:
  assumes "Stat_answer io = StatNotExist"
  shows "reconnect rc io = (Some EndpointUnavailable, rc, [Stat (address rc)])
    \<and> dials (snd (snd (reconnect rc io))) = 0"
  using assms by (simp add: reconnect_def dials_def)

theorem reconnect_needs_path_witness:
  "Stat_answer \<lparr>Stat_answer = StatNotExist, Dial_answer = Inr 9\<rparr> = StatNotExist
   \<and> reconnect tcp_client \<lparr>Stat_answer = StatNotExist, Dial_answer = Inr 9\<rparr>
       = (Some EndpointUnavailable, tcp_client, [Stat ''127.0.0.1:9000''])
   \<and> dials (snd (snd (reconnect tcp_client \<lparr>Stat_answer = StatNotExist, Dial_answer = Inr 9\<rparr>))) = 0"
  using reconnect_needs_path [of "\<lparr>Stat_answer = StatNotExist, Dial_answer = Inr 9\<rparr>" tcp_client]
  by (simp add: tcp_client_def dials_def)

text \<open>
  A broken pipe on the write of the length makes exactly one reconnect attempt, and the
  call fails whatever its outcome; with no broken pipe there, no failure of any call makes
  \<^verbatim>\<open>request\<close> reconnect.
\<close>

lemma reconnects_append: "reconnects (xs @ ys) = reconnects xs + reconnects ys"
  by (simp add: reconnects_def)

lemma reconnect_once: "reconnects (snd (snd (reconnect rc io))) = 1"
  by (simp add: reconnect_def reconnects_def split: sum.split)

lemma request_EPIPE_on_length:
  assumes "conn rc = Some c" and "SetDeadline_answer io = None" and "Write_len_answer io = Some EPIPE"
  shows "reconnects (events (request rc io req)) = 1
    \<and> returned (request rc io req)
        = Some (None, if Stat_answer (reconnect_EPIPE io) \<noteq> StatNotExist \<and> isl (Dial_answer (reconnect_EPIPE io)) = False
                      then Some (IOError EPIPE) else Some EndpointUnavailable)"
  using assms
  by (simp add: request_def request_locked_def reconnect_def reconnects_def events_def returned_def
      split: sum.split)

lemma request_locked_no_EPIPE_on_length:
  assumes "Write_len_answer io \<noteq> Some EPIPE"
  shows "reconnects (snd (snd (snd (request_locked rc c io req [])))) = 0"
proof (cases "SetDeadline_answer io")
  case (Some e)
  then show ?thesis by (simp add: request_locked_def reconnects_def)
next
  case None
  note sd = this
  show ?thesis
  proof (cases "Write_len_answer io")
    case (Some e)
    with assms have "e \<noteq> EPIPE" by simp
    with Some sd show ?thesis by (simp add: request_locked_def reconnects_def)
  next
    case None
    note wl = this
    show ?thesis
    proof (cases "Write_body_answer io")
      case (Some e)
      with sd wl show ?thesis by (simp add: request_locked_def reconnects_def)
    next
      case None
      note wb = this
      show ?thesis
      proof (cases "Read_len_answer io")
        case (Inl e)
        with sd wl wb show ?thesis by (simp add: request_locked_def reconnects_def)
      next
        case (Inr l)
        obtain buf rerr where "ReadFull (unat l) (ReadFull_answer io) = (buf, rerr)"
          by (cases "ReadFull (unat l) (ReadFull_answer io)")
        with Inr sd wl wb show ?thesis by (simp add: request_locked_def reconnects_def)
      qed
    qed
  qed
qed

lemma request_no_EPIPE_on_length:
  assumes "conn rc = Some c" and "Write_len_answer io \<noteq> Some EPIPE"
  shows "reconnects (events (request rc io req)) = 0"
  using request_locked_no_EPIPE_on_length [OF assms(2), of rc c req]
  by (simp add: request_def events_Return assms(1))

text \<open>
  Claim C2 at a frame whose length is written and whose body then fails with a broken
  pipe: \<^verbatim>\<open>request\<close> returns the error of that write and makes no reconnect attempt
  (no \<^verbatim>\<open>os.Stat\<close>, no \<^verbatim>\<open>net.Dial\<close>), where the claim has one made for a broken pipe on the
  write of the frame.
\<close>

theorem request_EPIPE_on_body:
  "request example_client ((io_ok ''{}'')\<lparr>Write_body_answer := Some EPIPE\<rparr>) ''[1]''
     = Return (None, Some (IOError EPIPE), example_client,
         [SetDeadline 3 5000000000, Write 3 (le32 3), Write 3 ''[1]''])
   \<and> reconnects [SetDeadline 3 5000000000, Write 3 (le32 3), Write 3 ''[1]''] = 0"
  by (simp add: request_def request_locked_def example_client_def io_ok_def reconnects_def)

text \<open>
  One caller alone. With every call succeeding: one socket, one frame, the lock released,
  as \<open>request\<close> has it. With a broken pipe on the write of the length: a second socket is
  dialled and assigned, and the call returns the error of the write.
\<close>

lemma replicate_two: "replicate 2 x = [x, x]"
  by (simp add: numeral_2_eq_2)

lemmas step_simps = step_def goto_def finish_def fresh_world_def

lemma single_caller:
  "run [''{}'']
     [(0, Ok), (0, Ok), (0, Ok), (0, Ok), (0, Ok), (0, Ok), (0, Ok), (0, Ok), (0, Ok), (0, Ok)]
     (fresh_world 1)
     = Some \<lparr>w_conn = Some 0, w_lock = None, w_open = [0],
             w_wire = [(0, 0, le32 2), (0, 0, ''{}'')], w_pcs = [Returned None]\<rparr>"
  by (simp add: step_simps)

lemma single_caller_broken_pipe:
  "run [''{}'']
     [(0, Ok), (0, Ok), (0, Ok), (0, Ok), (0, Ok), (0, Ok), (0, Fail EPIPE), (0, Ok), (0, Ok),
      (0, Ok)]
     (fresh_world 1)
     = Some \<lparr>w_conn = Some 1, w_lock = None, w_open = [0, 1], w_wire = [],
             w_pcs = [Returned (Some (IOError EPIPE))]\<rparr>"
  by (simp add: step_simps)

lemma request_broken_pipe:
  "returned (request tcp_client ((io_ok [])\<lparr>Write_len_answer := Some EPIPE\<rparr>) ''{}'')
     = Some (None, Some (IOError EPIPE))"
  by (simp add: request_def request_locked_def reconnect_def tcp_client_def io_ok_def returned_def)

text \<open>
  Claim C7 at two callers that enter \<^verbatim>\<open>request\<close> on a client with no connection. Both pass
  the test of line 269 before either has assigned \<^verbatim>\<open>rc.conn\<close>; both dial, outside the lock,
  and two sockets are open at once. In the second schedule the first caller has written
  the length of its frame to socket 0 when the second caller assigns socket 1 to
  \<^verbatim>\<open>rc.conn\<close>: the body of the frame goes to socket 1.
\<close>

theorem concurrent_callers_two_sockets:
  "run [''{}'', ''[1]''] [(0, Ok), (1, Ok), (0, Ok), (0, Ok), (1, Ok), (1, Ok)] (fresh_world 2)
     = Some \<lparr>w_conn = None, w_lock = None, w_open = [0, 1], w_wire = [],
             w_pcs = [At_assign 0 False, At_assign 1 False]\<rparr>
   \<and> run [''{}'', ''[1]'']
       [(0, Ok), (1, Ok), (0, Ok), (0, Ok), (0, Ok), (0, Ok), (0, Ok), (0, Ok),
        (1, Ok), (1, Ok), (1, Ok), (0, Ok)] (fresh_world 2)
     = Some \<lparr>w_conn = Some 1, w_lock = Some 0, w_open = [0, 1],
             w_wire = [(0, 0, le32 2), (1, 0, ''{}'')],
             w_pcs = [At_Read_len, At_Lock]\<rparr>"
  by (simp add: step_simps replicate_two)

subsection \<open>The interpreters\<close>

text \<open>
  Claim C3, as the code has it. When the result field is an array, \<^verbatim>\<open>TraceTransaction\<close>
  counts the elements that decode into the trace shape, not the elements: it fails with
  \<^verbatim>\<open>UnexpectedResponse\<close> exactly when the number of decoding elements is not one (so for the
  empty array, and for two or more decoding elements), and otherwise returns the one
  decoded element, with the error of \<^verbatim>\<open>jsonparser.ArrayEach\<close>.
\<close>

theorem TraceTransaction_array:
  assumes "buildRequest d ''debug_traceTransaction'' [AnyH256 hash] = (req, None)"
    and "request rc io (as_bytes req) = Return (res, None, rc', log)"
    and "jsonparser_Get d (as_bytes res) [''result''] = (result, Array, None)"
    and "jsonparser_ArrayEach d result = (elems, aerr)"
  shows "returned (TraceTransaction d rc io hash) =
     Some (if length (decoding d elems) = 1
           then (Some (fst (json_Unmarshal d (fst (decoding d elems ! 0)))), aerr)
           else (None, Some UnexpectedResponse))"
  by (simp add: TraceTransaction_def assms(1,2) returned_def
      TraceTransaction_response_array [OF assms(3,4)])

theorem TraceTransaction_array_witness:
  "returned (TraceTransaction example_deps example_client (io_ok trace_response_two) 7)
     = Some (Some ''{}'', None)"
proof -
  obtain b where b: "buildRequest example_deps ''debug_traceTransaction'' [AnyH256 7] = (Some b, None)"
    using buildRequest_example by blast
  have r: "request example_client (io_ok trace_response_two) (as_bytes (Some b))
     = Return (Some trace_response_two, None, example_client,
         [SetDeadline 3 5000000000, Write 3 (le32 (of_nat (length (as_bytes (Some b))))),
          Write 3 (as_bytes (Some b)), Read 3 4, Read 3 (length trace_response_two)])"
    by (rule request_io_ok [OF example_lengths(3)])
  have g: "jsonparser_Get example_deps (as_bytes (Some trace_response_two)) [''result'']
     = (''[{},5]'', Array, None)"
    by (simp add: as_bytes_def Get_example_two)
  show ?thesis
    using TraceTransaction_array [OF b r g ArrayEach_example_two]
    by (simp add: decoding_example_two Unmarshal_example_empty)
qed

text \<open>
  Claim C3 as stated has every array of more than one element fail. The array of the
  empty object and the number 5 has two elements, of which one decodes, and the call
  succeeds.
\<close>

theorem TraceTransaction_two_elements_counterexample:
  "jsonparser_ArrayEach example_deps
       (fst (jsonparser_Get example_deps trace_response_two [''result'']))
     = ([(''{}'', Object), (''5'', Number)], None)
   \<and> returned (TraceTransaction example_deps example_client (io_ok trace_response_two) 7)
       \<noteq> Some (None, Some UnexpectedResponse)"
  by (simp add: trace_example_two Get_example_two ArrayEach_example_two)




text \<open>
  Claim C5, as the code has it. The result is parsed by \<^verbatim>\<open>strconv.ParseInt\<close> into 64 bits,
  signed: for every \<open>V < 2 ^ 63\<close>, a response whose result field is the decimal numeral of
  \<open>V\<close> decodes to \<open>V\<close>, which is also what the result type gives for the hexadecimal
  numeral of \<open>V\<close>; for every \<open>V\<close> from \<open>2 ^ 63\<close> on, decoding fails with the range error of
  \<^verbatim>\<open>strconv.ParseInt\<close> ("failed to parse result as integer").
\<close>

theorem parseEstimateGasResponse_decimal:
  assumes "jsonparser_Get d res [''result''] = (dec V, Number, None)"
  shows "(V < 2 ^ 63 \<longrightarrow>
           parseEstimateGasResponse d res = (Some (of_nat V), None)
           \<and> Uint256_UnmarshalJSON (''0x'' @ hex V) = Inr (of_nat V)
           \<and> unat (of_nat V :: Uint256) = V)
    \<and> (2 ^ 63 \<le> V \<longrightarrow>
           parseEstimateGasResponse d res = (None, Some (ParseResultError ErrRange)))"
proof (intro conjI impI)
  assume small: "V < 2 ^ 63"
  have big: "V < 2 ^ 256"
  proof -
    have "(2::nat) ^ 63 \<le> 2 ^ 256" by (rule power_increasing) simp_all
    with small show ?thesis by linarith
  qed
  show u: "Uint256_UnmarshalJSON (''0x'' @ hex V) = Inr (of_nat V)"
    by (rule Uint256_UnmarshalJSON_hex [OF big])
  have p: "ParseInt (dec V) = (int V, None)" by (rule ParseInt_dec [OF small])
  show "parseEstimateGasResponse d res = (Some (of_nat V), None)"
    using u by (simp add: parseEstimateGasResponse_def assms p Sprintf_0x_x_nat)
  show "unat (of_nat V :: Uint256) = V"
    using big by (simp add: unat_of_nat)
next
  assume "2 ^ 63 \<le> V"
  then have p: "ParseInt (dec V) = (2 ^ 63 - 1, Some ErrRange)" by (rule ParseInt_dec_range)
  show "parseEstimateGasResponse d res = (None, Some (ParseResultError ErrRange))"
    by (simp add: parseEstimateGasResponse_def assms p)
qed

theorem parseEstimateGasResponse_decimal_witness:
  "parseEstimateGasResponse example_deps gas_response = (Some 6712759, None)
    \<and> Uint256_UnmarshalJSON (''0x'' @ hex 6712759) = Inr 6712759
    \<and> unat (6712759 :: Uint256) = 6712759
    \<and> parseEstimateGasResponse example_deps gas_response_big
        = (None, Some (ParseResultError ErrRange))"
  using parseEstimateGasResponse_decimal
      [where d = example_deps and res = gas_response and V = 6712759]
    parseEstimateGasResponse_decimal
      [where d = example_deps and res = gas_response_big and V = 9223372036854775808]
  by (simp add: dec_6712759 Get_example_gas dec_2_63 Get_example_big)

text \<open>
  Claim C5 as stated covers every value of the 256-bit result type. At \<open>V = 2 ^ 63\<close> the
  hexadecimal numeral still decodes to \<open>V\<close>, and the response fails with the range error
  of \<^verbatim>\<open>strconv.ParseInt\<close>.
\<close>

theorem parseEstimateGasResponse_int64_counterexample:
  "dec 9223372036854775808 = ''9223372036854775808''
   \<and> parseEstimateGasResponse example_deps gas_response_big = (None, Some (ParseResultError ErrRange))
   \<and> Uint256_UnmarshalJSON (''0x'' @ hex 9223372036854775808) = Inr 9223372036854775808"
proof (intro conjI)
  show "dec 9223372036854775808 = ''9223372036854775808''"
    by (simp add: dec.simps)
  have g: "jsonparser_Get example_deps gas_response_big [''result'']
      = (''9223372036854775808'', Number, None)"
    by (simp add: example_deps_def example_Get_def gas_response_big_def gas_response_def)
  have p: "ParseInt ''9223372036854775808'' = (2 ^ 63 - 1, Some ErrRange)"
    by (simp add: ParseInt_def ParseUint_def is_digit_def)
  show "parseEstimateGasResponse example_deps gas_response_big
      = (None, Some (ParseResultError ErrRange))"
    by (simp add: parseEstimateGasResponse_def g p)
  have "(9223372036854775808::nat) < 2 ^ 256" by simp
  then show "Uint256_UnmarshalJSON (''0x'' @ hex 9223372036854775808) = Inr 9223372036854775808"
    using Uint256_UnmarshalJSON_hex [of 9223372036854775808] by simp
qed

text \<open>
  Claim C6, as the code has it. The response \<^verbatim>\<open>{"id":1,"jsonrpc":"2.0","result":6712759}\<close>
  decodes to 6712759; the hexadecimal numeral the code renders on the way is
  \<^verbatim>\<open>0x666db7\<close>, and the result type gives 6712759 for it.
\<close>

theorem parseEstimateGasResponse_example:
  assumes "jsonparser_Get d gas_response [''result''] = (''6712759'', Number, None)"
  shows "parseEstimateGasResponse d gas_response = (Some 6712759, None)
    \<and> Sprintf_0x_x 6712759 = ''0x666db7''
    \<and> Uint256_UnmarshalJSON ''0x666db7'' = Inr 6712759
    \<and> unat (6712759 :: Uint256) = 6712759"
proof -
  have p: "ParseInt ''6712759'' = (6712759, None)"
    by (simp add: ParseInt_def ParseUint_def is_digit_def)
  have h: "Sprintf_0x_x 6712759 = ''0x666db7''"
    by (simp add: Sprintf_0x_x_def hex.simps)
  have u: "Uint256_UnmarshalJSON ''0x666db7'' = Inr 6712759"
    by (simp add: Uint256_UnmarshalJSON_def hex_value_def hexval_def is_hex_digit_def)
  have "parseEstimateGasResponse d gas_response = (Some 6712759, None)"
    by (simp add: parseEstimateGasResponse_def assms p h u)
  with h u show ?thesis by simp
qed

theorem parseEstimateGasResponse_example_witness:
  "parseEstimateGasResponse example_deps gas_response = (Some 6712759, None)
    \<and> Sprintf_0x_x 6712759 = ''0x666db7''
    \<and> Uint256_UnmarshalJSON ''0x666db7'' = Inr 6712759
    \<and> unat (6712759 :: Uint256) = 6712759
    \<and> returned (EstimateGas example_deps example_client (io_ok gas_response) ()
         (Some (LatestBlockNumber example_deps))) = Some (Some 6712759, None)"
  using parseEstimateGasResponse_example [OF Get_example_gas]
  by (simp add: EstimateGas_example [OF example_lengths(1)])

text \<open>
  Claim C6 as stated names the numeral \<^verbatim>\<open>0x6691b7\<close>. The code does not render it for
  6712759, and its value is 6721975.
\<close>

theorem hexadecimal_0x6691b7_counterexample:
  "Sprintf_0x_x 6712759 \<noteq> ''0x6691b7''
   \<and> Uint256_UnmarshalJSON ''0x6691b7'' = Inr 6721975
   \<and> (6721975 :: Uint256) \<noteq> 6712759"
proof (intro conjI)
  show "Sprintf_0x_x 6712759 \<noteq> ''0x6691b7''"
    by (simp add: Sprintf_0x_x_def hex.simps)
  show "Uint256_UnmarshalJSON ''0x6691b7'' = Inr 6721975"
    by (simp add: Uint256_UnmarshalJSON_def hex_value_def hexval_def is_hex_digit_def)
  show "(6721975 :: Uint256) \<noteq> 6712759" by simp
qed

end
